theory Spec2Isabelle
  imports Complex_Main "HOL-Library.AList" "HOL-Library.Char_ord" "HOL-Library.List_Lexorder"
begin

section \<open>Python values used by the gallery\<close>

text \<open>
  Exceptions of the source that a branch of the model can end in. \<open>InvalidVersion\<close> is
  what \<open>packaging.version.Version\<close> raises on a string it cannot parse.
\<close>

datatype error = KeyError | IndexError | ValueError | OSError | InvalidVersion

text \<open>
  \<open>str.lower()\<close> on the ASCII range; every other character is left as it is.
\<close>

definition lower_char :: "char \<Rightarrow> char" where
  "lower_char c =
     (if CHR ''A'' \<le> c \<and> c \<le> CHR ''Z'' then char_of (of_char c + (32::nat)) else c)"

definition lower :: "string \<Rightarrow> string" where
  "lower s = map lower_char s"

text \<open>\<open>sub in s\<close> on strings: \<open>sub\<close> occurs in \<open>s\<close> as a contiguous run.\<close>

fun startswith :: "string \<Rightarrow> string \<Rightarrow> bool" where
  "startswith s [] = True"
| "startswith [] (c # sub) = False"
| "startswith (d # s) (c # sub) = (d = c \<and> startswith s sub)"

fun str_in :: "string \<Rightarrow> string \<Rightarrow> bool" where
  "str_in sub [] = (sub = [])"
| "str_in sub (d # s) = (startswith (d # s) sub \<or> str_in sub s)"

text \<open>
  A \<open>dict\<close> keeps its keys in insertion order; assigning to a key that is present keeps
  the key's position. That is \<open>AList.update\<close> on an association list.
  \<open>d.update(other)\<close> assigns the items of \<open>other\<close> in their order.
\<close>

definition dict_update :: "('k \<times> 'v) list \<Rightarrow> ('k \<times> 'v) list \<Rightarrow> ('k \<times> 'v) list" where
  "dict_update d other = fold (\<lambda>kv. AList.update (fst kv) (snd kv)) other d"

text \<open>
  A value as \<open>json.load\<close> returns it. An object is a \<open>dict\<close>, given by its items, each
  key once. Numbers are exact (no \<open>NaN\<close>, no infinity).
\<close>

datatype json = JNull | JBool bool | JNum rat | JStr string | JArr "json list"
  | JObj "(string \<times> json) list"

text \<open>
  \<open>==\<close> on such values: a boolean equals the number 1 or 0, lists are equal when they
  have the same length and equal elements, dicts when they have the same keys with
  equal values, in whatever order the keys stand.
\<close>

function (sequential) json_eq :: "json \<Rightarrow> json \<Rightarrow> bool" where
  "json_eq JNull JNull = True"
| "json_eq (JBool a) (JBool b) = (a = b)"
| "json_eq (JBool a) (JNum n) = (n = of_bool a)"
| "json_eq (JNum n) (JBool a) = (n = of_bool a)"
| "json_eq (JNum m) (JNum n) = (m = n)"
| "json_eq (JStr s) (JStr t) = (s = t)"
| "json_eq (JArr xs) (JArr ys) =
     (length xs = length ys \<and> list_all (\<lambda>p. json_eq (fst p) (snd p)) (zip xs ys))"
| "json_eq (JObj a) (JObj b) =
     (list_all (\<lambda>kv. case map_of b (fst kv) of None \<Rightarrow> False | Some w \<Rightarrow> json_eq (snd kv) w) a
      \<and> list_all (\<lambda>kv. map_of a (fst kv) \<noteq> None) b)"
| "json_eq x y = False"
  by pat_completeness auto
termination
proof -
  have obj: "size (snd kv) \<le> size_list (size_prod (\<lambda>x. 0) size) a"
    if "kv \<in> set a" for kv :: "string \<times> json" and a
    using that by (induction a) auto
  have arr: "size x \<le> size_list size xs" if "x \<in> set xs" for x :: json and xs
    using that by (induction xs) auto
  have zp: "size x \<le> size_list size xs" if "(x, y) \<in> set (zip xs ys)"
    for x y :: json and xs ys
    using that by (intro arr) (rule set_zip_leftD)
  show ?thesis
    by (relation "measure (\<lambda>p. size (fst p))")
       (auto dest: obj zp simp: less_Suc_eq_le)
qed

definition dict_eq :: "(string \<times> json) list \<Rightarrow> (string \<times> json) list \<Rightarrow> bool" where
  "dict_eq a b = json_eq (JObj a) (JObj b)"

text \<open>
  \<open>list.sort(key=..., reverse=...)\<close> and \<open>sorted\<close>: stable; with \<open>reverse=True\<close> the list
  is reversed, sorted stably and reversed again, so equal keys keep their first order.
\<close>

definition py_sort :: "('a \<Rightarrow> 'k::linorder) \<Rightarrow> bool \<Rightarrow> 'a list \<Rightarrow> 'a list" where
  "py_sort key reverse xs = (if reverse then rev (sort_key key (rev xs)) else sort_key key xs)"

text \<open>
  The key function may raise: every key is computed before anything is moved, so one
  failing key fails the whole sort (\<open>None\<close>).
\<close>

definition sort_by_key :: "('a \<Rightarrow> 'k::linorder option) \<Rightarrow> bool \<Rightarrow> 'a list \<Rightarrow> 'a list option" where
  "sort_by_key key reverse xs =
     (if list_all (\<lambda>x. key x \<noteq> None) xs then Some (py_sort (\<lambda>x. the (key x)) reverse xs)
      else None)"

section \<open>Data model\<close>

text \<open>
  One asset of a version (\<open>version['files'][i]\<close>); \<open>source\<close> is absent on disk and set by
  \<open>process_loaded_extension\<close>. \<open>asset_other\<close> holds every other key of the dict.
\<close>

record asset =
  assetType :: string
  source :: "string option"
  asset_other :: "(string \<times> json) list"

text \<open>
  One entry of \<open>extension['versions']\<close>. Optional keys are options; \<open>version\<close> and
  \<open>files\<close>, which \<open>process_loaded_extension\<close> reads unguarded, are taken as present.
  \<open>other_keys\<close> holds every other key of the dict (\<open>flags\<close>, \<open>lastUpdated\<close>,
  \<open>properties\<close> and so on) with its value.
\<close>

record version_record =
  version :: string
  targetPlatform :: "string option"
  files :: "asset list"
  assetUri :: "string option"
  fallbackAssetUri :: "string option"
  other_keys :: "(string \<times> json) list"

text \<open>
  \<open>==\<close> on two asset dicts and on two version dicts: every key of the one is a key of
  the other, with an equal value.
\<close>

definition asset_eq :: "asset \<Rightarrow> asset \<Rightarrow> bool" where
  "asset_eq a b =
     (assetType a = assetType b \<and> source a = source b
      \<and> dict_eq (asset_other a) (asset_other b))"

definition version_eq :: "version_record \<Rightarrow> version_record \<Rightarrow> bool" where
  "version_eq a b =
     (version a = version b \<and> targetPlatform a = targetPlatform b
      \<and> length (files a) = length (files b)
      \<and> list_all (\<lambda>p. asset_eq (fst p) (snd p)) (zip (files a) (files b))
      \<and> assetUri a = assetUri b \<and> fallbackAssetUri a = fallbackAssetUri b
      \<and> dict_eq (other_keys a) (other_keys b))"

text \<open>
  The keys of an extension description that the gallery reads and never writes.
  \<open>publisherName\<close> is \<open>k['publisher']['publisherName']\<close>; \<open>recommended\<close> is the truth value
  of the key when it is present.
\<close>

record info =
  extensionId :: string
  displayName :: "string option"
  shortDescription :: "string option"
  publisherName :: string
  lastUpdated :: string
  publishedDate :: string
  recommended :: "bool option"

text \<open>
  A description as \<open>load_json\<close> returns it from \<open>latest.json\<close> or \<open>extension.json\<close>:
  \<open>identity\<close>, \<open>versions\<close> and \<open>statistics\<close> may be missing. A statistic is a pair of its
  \<open>statisticName\<close> and \<open>value\<close>.
\<close>

record description =
  d_identity :: "string option"
  d_versions :: "version_record list option"
  d_statistics :: "(string \<times> rat) list option"
  d_info :: info

text \<open>
  A processed extension, as stored in \<open>self.extensions\<close>: the description with its
  versions rewritten and the \<open>stats\<close> dict added.
\<close>

record extension =
  identity :: string
  versions :: "version_record list"
  statistics :: "(string \<times> rat) list option"
  stats :: "(string \<times> rat) list"
  info :: info

text \<open>\<open>self.extensions\<close>: a dict from identity to extension.\<close>

type_synonym snapshot = "(string \<times> extension) list"

section \<open>Query engine\<close>

text \<open>
  \<open>vsc.FilterType\<close>, \<open>vsc.SortBy\<close> and \<open>vsc.SortOrder\<close> are \<open>IntFlag\<close> classes: calling
  the class on an integer that is no member gives a pseudo-member, which compares
  unequal to every member.
\<close>

datatype FilterType = Tag | ExtensionId | Category | ExtensionName | Target | Featured
  | SearchText | ExcludeWithFlags | UndefinedType | FilterPseudo int

definition FilterType_of :: "int \<Rightarrow> FilterType" where
  "FilterType_of n =
     (if n = 1 then Tag else if n = 4 then ExtensionId else if n = 5 then Category
      else if n = 7 then ExtensionName else if n = 8 then Target else if n = 9 then Featured
      else if n = 10 then SearchText else if n = 12 then ExcludeWithFlags
      else if n = 14 then UndefinedType else FilterPseudo n)"

datatype SortBy = NoneOrRelevance | LastUpdatedDate | Title | PublisherName | InstallCount
  | PublishedDate | AverageRating | WeightedRating | SortByPseudo int

definition SortBy_of :: "int \<Rightarrow> SortBy" where
  "SortBy_of n =
     (if n = 0 then NoneOrRelevance else if n = 1 then LastUpdatedDate else if n = 2 then Title
      else if n = 3 then PublisherName else if n = 4 then InstallCount
      else if n = 5 then PublishedDate else if n = 6 then AverageRating
      else if n = 12 then WeightedRating else SortByPseudo n)"

datatype SortOrder = Default | Ascending | Descending | SortOrderPseudo int

definition SortOrder_of :: "int \<Rightarrow> SortOrder" where
  "SortOrder_of n =
     (if n = 0 then Default else if n = 1 then Ascending else if n = 2 then Descending
      else SortOrderPseudo n)"

text \<open>One entry of \<open>criteria\<close>; either key may be missing.\<close>

record criterion =
  filterType :: "int option"
  crit_value :: "string option"

text \<open>
  What one criterion appends to \<open>result\<close> in \<open>_apply_criteria\<close>, in the dict's order.
  \<open>val\<close> is the lowered value. The identity is the dict key.
\<close>

definition search_hit :: "string \<Rightarrow> string \<times> extension \<Rightarrow> bool" where
  "search_hit val ne =
     (str_in val (lower (fst ne))
      \<or> (case displayName (info (snd ne)) of None \<Rightarrow> False | Some dn \<Rightarrow> str_in val (lower dn))
      \<or> (case shortDescription (info (snd ne)) of None \<Rightarrow> False
          | Some sd \<Rightarrow> str_in val (lower sd)))"

fun matches :: "snapshot \<Rightarrow> FilterType \<Rightarrow> string \<Rightarrow> extension list" where
  "matches exts ExtensionId val =
     map snd (filter (\<lambda>ne. val = extensionId (info (snd ne))) exts)"
| "matches exts ExtensionName val = map snd (filter (\<lambda>ne. lower (fst ne) = val) exts)"
| "matches exts SearchText val = map snd (filter (search_hit val) exts)"
| "matches exts ft val = []"

text \<open>The loop over \<open>criteria\<close>, with \<open>result\<close> as the accumulator.\<close>

fun criteria_loop :: "snapshot \<Rightarrow> criterion list \<Rightarrow> extension list \<Rightarrow> extension list" where
  "criteria_loop exts [] result = result"
| "criteria_loop exts (crit # rest) result =
     (case filterType crit of
        None \<Rightarrow> criteria_loop exts rest result
      | Some ft \<Rightarrow>
          (case crit_value crit of
             None \<Rightarrow> criteria_loop exts rest result
           | Some v \<Rightarrow>
               criteria_loop exts rest (result @ matches exts (FilterType_of ft) (lower v))))"

definition is_recommended :: "extension \<Rightarrow> bool" where
  "is_recommended ext = (recommended (info ext) = Some True)"

definition apply_criteria :: "snapshot \<Rightarrow> criterion list \<Rightarrow> extension list" where
  "apply_criteria exts criteria =
     (let result = criteria_loop exts criteria []
      in if length result \<le> 0 \<and> length criteria \<le> 2
         then filter is_recommended (map snd exts)
         else result)"

text \<open>
  \<open>_sort\<close>. \<open>k['stats'][...]\<close> and \<open>k['displayName']\<close> raise \<open>KeyError\<close> on a missing key;
  \<open>from_json_datetime\<close> is \<open>datetime.strptime\<close> with a fixed format, taken as a
  parameter that gives the parsed time or nothing (\<open>ValueError\<close>).
\<close>

definition stat :: "string \<Rightarrow> extension \<Rightarrow> rat option" where
  "stat nm k = map_of (stats k) nm"

definition or_raise :: "error \<Rightarrow> 'a option \<Rightarrow> error + 'a" where
  "or_raise e r = (case r of None \<Rightarrow> Inl e | Some x \<Rightarrow> Inr x)"

definition sort_result ::
  "(string \<Rightarrow> int option) \<Rightarrow> extension list \<Rightarrow> SortBy \<Rightarrow> SortOrder \<Rightarrow> error + extension list"
where
  "sort_result from_json_datetime result sortby sortorder =
     (let rev0 = (if sortorder = Ascending then False else True)
      in if sortby = PublisherName then
           Inr (py_sort (\<lambda>k. publisherName (info k)) (\<not> rev0) result)
         else if sortby = InstallCount then
           or_raise KeyError (sort_by_key (stat ''install'') rev0 result)
         else if sortby = AverageRating then
           or_raise KeyError (sort_by_key (stat ''averagerating'') rev0 result)
         else if sortby = WeightedRating then
           or_raise KeyError (sort_by_key (stat ''weightedRating'') rev0 result)
         else if sortby = LastUpdatedDate then
           or_raise ValueError
             (sort_by_key (\<lambda>k. from_json_datetime (lastUpdated (info k))) rev0 result)
         else if sortby = PublishedDate then
           or_raise ValueError
             (sort_by_key (\<lambda>k. from_json_datetime (publishedDate (info k))) rev0 result)
         else
           or_raise KeyError (sort_by_key (\<lambda>k. displayName (info k)) (\<not> rev0) result))"

text \<open>\<open>_build_response\<close>: the fixed envelope.\<close>

record metadata_item =
  item_name :: string
  item_count :: nat

record result_metadata =
  metadataType :: string
  metadataItems :: "metadata_item list"

record query_result =
  result_extensions :: "extension list"
  pagingToken :: "string option"
  resultMetadata :: "result_metadata list"

record response_body =
  results :: "query_result list"

definition build_response :: "extension list \<Rightarrow> response_body" where
  "build_response resultingExtensions =
     \<lparr>results =
        [\<lparr>result_extensions = resultingExtensions,
          pagingToken = None,
          resultMetadata =
            [\<lparr>metadataType = ''ResultCount'',
              metadataItems =
                [\<lparr>item_name = ''TotalCount'', item_count = length resultingExtensions\<rparr>]\<rparr>]\<rparr>]\<rparr>"

text \<open>
  \<open>on_post\<close>. The request body: \<open>filters\<close> and \<open>flags\<close> may be missing, and so may the
  keys of the first filter. \<open>filters[0]\<close> on an empty list raises \<open>IndexError\<close>.
\<close>

record query_filter =
  criteria :: "criterion list option"
  sortBy :: "int option"
  sortOrder :: "int option"

record request =
  filters :: "query_filter list option"
  flags :: "int option"

datatype http_response = HTTP_404 | HTTP_200 response_body

definition truthy :: "int option \<Rightarrow> bool" where
  "truthy v = (case v of None \<Rightarrow> False | Some n \<Rightarrow> n \<noteq> 0)"

definition on_post ::
  "(string \<Rightarrow> int option) \<Rightarrow> snapshot \<Rightarrow> request \<Rightarrow> error + http_response"
where
  "on_post from_json_datetime exts req =
     (case filters req of
        None \<Rightarrow> Inr HTTP_404
      | Some [] \<Rightarrow> Inl IndexError
      | Some (f0 # fs) \<Rightarrow>
          (case criteria f0 of
             None \<Rightarrow> Inr HTTP_404
           | Some crits \<Rightarrow>
               if flags req = None then Inr HTTP_404
               else
                 let sortorder0 = (if truthy (sortOrder f0) then SortOrder_of (the (sortOrder f0))
                                   else Default);
                     sortby0 = (if truthy (sortBy f0) then SortBy_of (the (sortBy f0))
                                else NoneOrRelevance);
                     sortby = (if sortby0 = NoneOrRelevance then InstallCount else sortby0);
                     sortorder = (if sortby0 = NoneOrRelevance then Descending else sortorder0)
                 in (case sort_result from_json_datetime (apply_criteria exts crits) sortby
                            sortorder of
                       Inl e \<Rightarrow> Inl e
                     | Inr sorted_result \<Rightarrow> Inr (HTTP_200 (build_response sorted_result)))))"

text \<open>
  The match list of one criterion on its own: nothing when a key is missing or the kind
  is not supported.
\<close>

definition criterion_matches :: "snapshot \<Rightarrow> criterion \<Rightarrow> extension list" where
  "criterion_matches exts crit =
     (case filterType crit of
        None \<Rightarrow> []
      | Some ft \<Rightarrow>
          (case crit_value crit of
             None \<Rightarrow> []
           | Some v \<Rightarrow> matches exts (FilterType_of ft) (lower v)))"

section \<open>Metadata loader\<close>

definition URLROOT :: string where
  "URLROOT = ''https://update.code.visualstudio.com''"

definition asset_uri :: "string \<Rightarrow> version_record \<Rightarrow> string" where
  "asset_uri base_uri v =
     (case targetPlatform v of
        Some tp \<Rightarrow> base_uri @ ''/'' @ version v @ ''/'' @ tp
      | None \<Rightarrow> base_uri @ ''/'' @ version v)"

definition process_version :: "string \<Rightarrow> version_record \<Rightarrow> version_record" where
  "process_version base_uri v =
     (let asseturi = asset_uri base_uri v
      in v\<lparr>files := map (\<lambda>a. a\<lparr>source := Some (asseturi @ ''/'' @ assetType a)\<rparr>) (files v),
           assetUri := Some asseturi,
           fallbackAssetUri := Some asseturi\<rparr>)"

definition default_stats :: "(string \<times> rat) list" where
  "default_stats = [(''averagerating'', 0), (''install'', 0), (''weightedRating'', 0)]"

text \<open>
  \<open>process_loaded_extension\<close>: \<open>extension['identity']\<close> and \<open>extension["versions"]\<close> raise
  \<open>KeyError\<close> when the key is missing.
\<close>

definition process_loaded_extension :: "description \<Rightarrow> string \<Rightarrow> error + extension" where
  "process_loaded_extension ext extensiondir =
     (case d_identity ext of
        None \<Rightarrow> Inl KeyError
      | Some nm \<Rightarrow>
          (case d_versions ext of
             None \<Rightarrow> Inl KeyError
           | Some vs \<Rightarrow>
               Inr \<lparr>identity = nm,
                    versions = map (process_version (URLROOT @ extensiondir)) vs,
                    statistics = d_statistics ext,
                    stats =
                      (if d_statistics ext = None \<or> d_statistics ext = Some [] then default_stats
                       else dict_update default_stats (dict_update [] (the (d_statistics ext)))),
                    info = d_info ext\<rparr>))"

text \<open>
  A JSON file on disk as \<open>vsc.Utility.load_json\<close> meets it: not there; there but \<open>open\<close>
  raises \<open>OSError\<close>; there but a directory, not decodable, or a falsy JSON value (all
  give \<open>[]\<close>); or a description. The falsy \<open>[]\<close> is \<open>None\<close>.
\<close>

datatype 'a json_file = Absent | Unreadable | Invalid | Content 'a

definition load_json :: "'a json_file \<Rightarrow> error + 'a option" where
  "load_json f =
     (case f of
        Absent \<Rightarrow> Inr None
      | Unreadable \<Rightarrow> Inl OSError
      | Invalid \<Rightarrow> Inr None
      | Content c \<Rightarrow> Inr (Some c))"

text \<open>One entry of \<open>os.scandir(extensiondir)\<close>, with the \<open>extension.json\<close> below it.\<close>

record dir_entry =
  entry_name :: string
  entry_is_dir :: bool
  extension_json :: "description json_file"

text \<open>
  An extension directory: its path, its \<open>latest.json\<close> and its listing (\<open>None\<close> when
  \<open>os.scandir\<close> raises \<open>OSError\<close>).
\<close>

record extension_dir =
  dir_path :: string
  latest_json :: "description json_file"
  dir_entries :: "dir_entry list option"

text \<open>
  The loop over the sibling directories. It appends to \<open>latest['versions']\<close> (the
  accumulator) and stops at the first exception, which it returns with what was
  appended so far.
\<close>

fun scan_versions ::
  "string \<Rightarrow> version_record \<Rightarrow> dir_entry list \<Rightarrow> version_record list
    \<Rightarrow> version_record list \<times> error option"
where
  "scan_versions extensiondir latestversion [] acc = (acc, None)"
| "scan_versions extensiondir latestversion (entry # rest) acc =
     (if entry_is_dir entry \<and> entry_name entry \<noteq> ''.'' then
        (if extension_json entry = Absent then
           scan_versions extensiondir latestversion rest acc
         else
           (case load_json (extension_json entry) of
              Inl e \<Rightarrow> (acc, Some e)
            | Inr None \<Rightarrow> scan_versions extensiondir latestversion rest acc
            | Inr (Some vers0) \<Rightarrow>
                (case process_loaded_extension vers0 extensiondir of
                   Inl e \<Rightarrow> (acc, Some e)
                 | Inr vers \<Rightarrow>
                     (case versions vers of
                        [] \<Rightarrow> (acc, Some IndexError)
                      | v0 # vs \<Rightarrow>
                          if version_eq latestversion v0 then
                            scan_versions extensiondir latestversion rest acc
                          else scan_versions extensiondir latestversion rest (acc @ [v0])))))
      else scan_versions extensiondir latestversion rest acc)"

text \<open>
  \<open>process_single_extension\<close> up to the sort: the processed \<open>latest\<close> and the versions in
  discovery order. An \<open>OSError\<close> from the listing or inside the loop is swallowed; any
  other exception makes the function return \<open>None\<close>.
\<close>

definition collect_versions :: "extension_dir \<Rightarrow> (extension \<times> version_record list) option" where
  "collect_versions d =
     (case load_json (latest_json d) of
        Inl e \<Rightarrow> None
      | Inr None \<Rightarrow> None
      | Inr (Some latest0) \<Rightarrow>
          if d_identity latest0 = None \<or> d_versions latest0 = None \<or> d_versions latest0 = Some []
          then None
          else
            (case process_loaded_extension latest0 (dir_path d) of
               Inl e \<Rightarrow> None
             | Inr latest \<Rightarrow>
                 (case versions latest of
                    [] \<Rightarrow> None
                  | latestversion # vs \<Rightarrow>
                      (case dir_entries d of
                         None \<Rightarrow> Some (latest, versions latest)
                       | Some entries \<Rightarrow>
                           (case scan_versions (dir_path d) latestversion entries (versions latest) of
                              (found, None) \<Rightarrow> Some (latest, found)
                            | (found, Some e) \<Rightarrow>
                                if e = OSError then Some (latest, found) else None)))))"

text \<open>
  \<open>Version\<close> is \<open>packaging.version.Version\<close>, taken as a parameter: a parser into some
  linear order that gives nothing where the library raises \<open>InvalidVersion\<close>.
\<close>

definition process_single_extension ::
  "(string \<Rightarrow> 'k::linorder option) \<Rightarrow> extension_dir \<Rightarrow> extension option"
where
  "process_single_extension Version d =
     (case collect_versions d of
        None \<Rightarrow> None
      | Some (latest, found) \<Rightarrow>
          (case sort_by_key (\<lambda>k. Version (version k)) True found of
             None \<Rightarrow> None
           | Some sorted_versions \<Rightarrow> Some (latest\<lparr>versions := sorted_versions\<rparr>)))"

text \<open>
  The release-only fragment of \<open>Version\<close> (numbers separated by dots), for the concrete
  examples below: the key is the release with its trailing zeros dropped, compared as a
  tuple. Outside the fragment it gives nothing.
\<close>

fun split_on :: "char \<Rightarrow> string \<Rightarrow> string list" where
  "split_on sep [] = [[]]"
| "split_on sep (c # cs) =
     (if c = sep then [] # split_on sep cs
      else (case split_on sep cs of [] \<Rightarrow> [[c]] | seg # segs \<Rightarrow> (c # seg) # segs))"

definition is_digit :: "char \<Rightarrow> bool" where
  "is_digit c = (CHR ''0'' \<le> c \<and> c \<le> CHR ''9'')"

definition digits_to_nat :: "string \<Rightarrow> nat" where
  "digits_to_nat ds = foldl (\<lambda>n c. 10 * n + (of_char c - 48)) 0 ds"

definition release_version :: "string \<Rightarrow> nat list option" where
  "release_version s =
     (let segs = split_on (CHR ''.'') s
      in if list_all (\<lambda>seg. seg \<noteq> [] \<and> list_all is_digit seg) segs
         then Some (rev (dropWhile (\<lambda>n. n = 0) (rev (map digits_to_nat segs))))
         else None)"

section \<open>Cache store and catalog builder\<close>

text \<open>
  One entry of \<open>os.scandir(vsc.ARTIFACTS_EXTENSIONS)\<close>: \<open>st_mtime\<close> is \<open>None\<close> when
  \<open>entry.stat()\<close> raises \<open>OSError\<close>; \<open>updated_json\<close> is the mtime of the marker file when
  it exists.
\<close>

record root_entry =
  is_dir :: bool
  st_mtime :: "rat option"
  updated_json :: "rat option"
  ext_dir :: extension_dir

text \<open>
  The storage the gallery reads: the listing of the extensions root (\<open>None\<close> when
  \<open>os.scandir\<close> raises \<open>OSError\<close>) and the cache file, when it exists, with its mtime and
  what \<open>gzip.open\<close> and \<open>json.load\<close> make of it (\<open>None\<close> when either raises). An
  object in the cache file is taken to hold extension records.
\<close>

text \<open>
  What \<open>self.extensions\<close> can hold. The gallery itself only ever builds a dict of
  extensions, but \<open>load_cache\<close> assigns whatever the cache file decodes to, and that
  may be a JSON value that is no object.
\<close>

datatype not_dict = PyNone | PyBool bool | PyNumber rat | PyStr string | PyList "json list"

datatype catalog = Dict snapshot | NotDict not_dict

text \<open>\<open>len(x)\<close> raises \<open>TypeError\<close> on \<open>None\<close>, a boolean and a number.\<close>

fun has_len :: "catalog \<Rightarrow> bool" where
  "has_len (Dict d) = True"
| "has_len (NotDict (PyStr s)) = True"
| "has_len (NotDict (PyList xs)) = True"
| "has_len (NotDict v) = False"

record filesystem =
  extensions_root :: "root_entry list option"
  cache_file :: "(rat \<times> catalog option) option"

text \<open>A Python float that may be \<open>float('inf')\<close>.\<close>

datatype pyfloat = Finite rat | Inf

definition float_gt :: "rat \<Rightarrow> pyfloat \<Rightarrow> bool" where
  "float_gt a b = (case b of Finite r \<Rightarrow> a > r | Inf \<Rightarrow> False)"

record progress =
  current :: nat
  total :: nat
  stage :: string

text \<open>
  The gallery object. \<open>history\<close> is a ghost field: every value that \<open>self.extensions\<close>
  has been given, by assignment or by \<open>update\<close> in place, in order. A reader that runs
  between two steps of a rebuild sees the value before the rebuild or one of these.
\<close>

record gallery =
  extensions :: catalog
  indexing :: bool
  indexing_progress :: progress
  history :: "catalog list"

definition publish :: "catalog \<Rightarrow> gallery \<Rightarrow> gallery" where
  "publish s g = g\<lparr>extensions := s, history := history g @ [s]\<rparr>"

definition get_cache_mtime :: "filesystem \<Rightarrow> rat" where
  "get_cache_mtime fs = (case cache_file fs of None \<Rightarrow> 0 | Some c \<Rightarrow> fst c)"

fun mtime_loop :: "root_entry list \<Rightarrow> rat \<Rightarrow> error + rat" where
  "mtime_loop [] max_mtime = Inr max_mtime"
| "mtime_loop (entry # rest) max_mtime =
     (if is_dir entry then
        (case st_mtime entry of
           None \<Rightarrow> Inl OSError
         | Some dir_mtime \<Rightarrow>
             (case updated_json entry of
                None \<Rightarrow> mtime_loop rest (max max_mtime dir_mtime)
              | Some u \<Rightarrow> mtime_loop rest (max (max max_mtime dir_mtime) u)))
      else mtime_loop rest max_mtime)"

definition get_extensions_mtime :: "filesystem \<Rightarrow> pyfloat" where
  "get_extensions_mtime fs =
     (case extensions_root fs of
        None \<Rightarrow> Inf
      | Some entries \<Rightarrow> (case mtime_loop entries 0 of Inl e \<Rightarrow> Inf | Inr m \<Rightarrow> Finite m))"

text \<open>
  \<open>load_cache\<close>. Inside the \<open>try\<close>, \<open>self.extensions = cached_data\<close> comes before
  \<open>len(self.extensions)\<close>: when \<open>len\<close> raises, the exception is swallowed and \<open>False\<close>
  is returned after the assignment.
\<close>

definition load_cache :: "filesystem \<Rightarrow> gallery \<Rightarrow> bool \<times> gallery" where
  "load_cache fs g =
     (let cache_mtime = get_cache_mtime fs;
          extensions_mtime = get_extensions_mtime fs
      in if float_gt cache_mtime extensions_mtime \<and> cache_file fs \<noteq> None then
           (case snd (the (cache_file fs)) of
              None \<Rightarrow> (False, g)
            | Some cached_data \<Rightarrow>
                if has_len cached_data then (True, publish cached_data g)
                else (False, publish cached_data g))
         else (False, g))"

text \<open>
  The state of the loop over the completed futures in \<open>update_state\<close>. When
  \<open>self.extensions\<close> is no dict, \<open>self.extensions.update\<close> raises \<open>AttributeError\<close>,
  which the \<open>except\<close> of the loop swallows before \<open>batch_extensions.clear()\<close> is reached.
\<close>

record build_state =
  processed_count :: nat
  new_extensions :: snapshot
  batch_extensions :: snapshot
  gal :: gallery

definition batch_size :: nat where
  "batch_size = 100"

definition merge_future :: "nat \<Rightarrow> extension option \<Rightarrow> build_state \<Rightarrow> build_state" where
  "merge_future total_extensions latest st =
     (let pc = processed_count st + 1;
          g1 = (gal st)\<lparr>indexing_progress := (indexing_progress (gal st))\<lparr>current := pc\<rparr>\<rparr>
      in case latest of
           None \<Rightarrow> st\<lparr>processed_count := pc, gal := g1\<rparr>
         | Some ext \<Rightarrow>
             (let new = AList.update (identity ext) ext (new_extensions st);
                  batch = AList.update (identity ext) ext (batch_extensions st)
              in if length batch \<ge> batch_size \<or> pc = total_extensions then
                   (case extensions g1 of
                      Dict published \<Rightarrow>
                        st\<lparr>processed_count := pc, new_extensions := new, batch_extensions := [],
                           gal := publish (Dict (dict_update published batch)) g1\<rparr>
                    | NotDict v \<Rightarrow>
                        st\<lparr>processed_count := pc, new_extensions := new,
                           batch_extensions := batch, gal := g1\<rparr>)
                 else
                   st\<lparr>processed_count := pc, new_extensions := new, batch_extensions := batch,
                      gal := g1\<rparr>))"

definition eligible :: "root_entry \<Rightarrow> bool" where
  "eligible entry = (is_dir entry \<and> latest_json (ext_dir entry) \<noteq> Absent)"

text \<open>
  \<open>update_state\<close>. \<open>as_completed\<close> gives the order in which the worker pool finishes the
  directories. Writing the cache file is left out: no statement below reads it back.
\<close>

definition update_state ::
  "(string \<Rightarrow> 'k::linorder option) \<Rightarrow> (extension_dir list \<Rightarrow> extension_dir list)
    \<Rightarrow> filesystem \<Rightarrow> gallery \<Rightarrow> (error + unit) \<times> gallery"
where
  "update_state Version as_completed fs g0 =
     (case load_cache fs g0 of
        (True, g1) \<Rightarrow> (Inr (), g1)
      | (False, g1) \<Rightarrow>
          (let g2 = g1\<lparr>indexing := True\<rparr>
           in case extensions_root fs of
                None \<Rightarrow> (Inl OSError, g2)
              | Some entries \<Rightarrow>
                  (let extension_dirs = map ext_dir (filter eligible entries);
                       total_extensions = length extension_dirs;
                       g3 = g2\<lparr>indexing_progress :=
                              \<lparr>current = 0, total = total_extensions, stage = ''processing''\<rparr>\<rparr>;
                       st = fold (merge_future total_extensions)
                              (map (process_single_extension Version) (as_completed extension_dirs))
                              \<lparr>processed_count = 0, new_extensions = [], batch_extensions = [],
                               gal = g3\<rparr>;
                       g4 = publish (Dict (new_extensions st)) (gal st)
                   in (Inr (),
                       g4\<lparr>indexing := False,
                          indexing_progress := \<lparr>current = 0, total = 0, stage = ''idle''\<rparr>\<rparr>))))"

text \<open>
  The map that a rebuild accumulates in \<open>new_extensions\<close> from the results of the
  futures.
\<close>

definition accumulate :: "extension option list \<Rightarrow> snapshot" where
  "accumulate rs =
     fold (\<lambda>r acc. case r of None \<Rightarrow> acc | Some ext \<Rightarrow> AList.update (identity ext) ext acc) rs []"

section \<open>Refresh scheduler\<close>

text \<open>
  Two threads call \<open>update_state\<close>: the worker thread that runs \<open>update_state_loop\<close>, and
  the observer thread that runs \<open>ArtifactChangedHandler.on_modified\<close>. A thread is inside
  a rebuild from the moment \<open>load_cache\<close> has returned \<open>False\<close> until \<open>update_state\<close>
  returns. The state says which threads are inside a rebuild and whether the \<open>indexing\<close>
  event is set.
\<close>

record scheduler =
  worker_rebuilding :: bool
  observer_rebuilding :: bool
  indexing_set :: bool

text \<open>
  One step of the two threads interleaved. \<open>cache_hit\<close> is what \<open>load_cache\<close> returns to
  the call. Neither caller reads \<open>indexing\<close> or any other state before it calls
  \<open>update_state\<close>, and \<open>update_state\<close> reads none before it starts.
\<close>

inductive step :: "scheduler \<Rightarrow> scheduler \<Rightarrow> bool" where
  loop_hit:
    "\<not> worker_rebuilding s \<Longrightarrow> cache_hit \<Longrightarrow> step s s"
| loop_rebuild:
    "\<not> worker_rebuilding s \<Longrightarrow> \<not> cache_hit
      \<Longrightarrow> step s (s\<lparr>worker_rebuilding := True, indexing_set := True\<rparr>)"
| loop_done:
    "worker_rebuilding s \<Longrightarrow> step s (s\<lparr>worker_rebuilding := False, indexing_set := False\<rparr>)"
| on_modified_other:
    "\<not> observer_rebuilding s \<Longrightarrow> \<not> str_in ''updated.json'' src_path \<Longrightarrow> step s s"
| on_modified_hit:
    "\<not> observer_rebuilding s \<Longrightarrow> str_in ''updated.json'' src_path \<Longrightarrow> cache_hit \<Longrightarrow> step s s"
| on_modified_rebuild:
    "\<not> observer_rebuilding s \<Longrightarrow> str_in ''updated.json'' src_path \<Longrightarrow> \<not> cache_hit
      \<Longrightarrow> step s (s\<lparr>observer_rebuilding := True, indexing_set := True\<rparr>)"
| on_modified_done:
    "observer_rebuilding s
      \<Longrightarrow> step s (s\<lparr>observer_rebuilding := False, indexing_set := False\<rparr>)"

inductive reachable :: "scheduler \<Rightarrow> bool" where
  start: "reachable \<lparr>worker_rebuilding = False, observer_rebuilding = False, indexing_set = False\<rparr>"
| next_step: "reachable s \<Longrightarrow> step s t \<Longrightarrow> reachable t"

definition overlapping :: "scheduler \<Rightarrow> bool" where
  "overlapping s = (worker_rebuilding s \<and> observer_rebuilding s)"

section \<open>Concrete catalogues and requests\<close>

definition ex_info :: "string \<Rightarrow> bool option \<Rightarrow> info" where
  "ex_info eid r =
     \<lparr>extensionId = eid, displayName = None, shortDescription = None, publisherName = ''pub'',
      lastUpdated = ''2024-01-01T00:00:00.0Z'', publishedDate = ''2024-01-01T00:00:00.0Z'',
      recommended = r\<rparr>"

definition ex_ext :: "string \<Rightarrow> string \<Rightarrow> rat \<Rightarrow> bool option \<Rightarrow> extension" where
  "ex_ext nm eid n r =
     \<lparr>identity = nm, versions = [], statistics = None,
      stats = [(''averagerating'', 0), (''install'', n), (''weightedRating'', 0)],
      info = ex_info eid r\<rparr>"

definition ext_a :: extension where
  "ext_a = ex_ext ''pub.a'' ''id-a'' 10 None"

definition ext_b :: extension where
  "ext_b = ex_ext ''pub.b'' ''id-b'' 50 (Some True)"

definition ext_c :: extension where
  "ext_c = ex_ext ''pub.c'' ''id-c'' 30 (Some False)"

definition ex_snapshot :: snapshot where
  "ex_snapshot = [(''pub.a'', ext_a), (''pub.b'', ext_b), (''pub.c'', ext_c)]"

definition crit :: "int \<Rightarrow> string \<Rightarrow> criterion" where
  "crit ft v = \<lparr>filterType = Some ft, crit_value = Some v\<rparr>"

text \<open>A request with one filter and neither \<open>sortBy\<close> nor \<open>sortOrder\<close>.\<close>

definition ex_request :: "criterion list \<Rightarrow> request" where
  "ex_request crits =
     \<lparr>filters = Some [\<lparr>criteria = Some crits, sortBy = None, sortOrder = None\<rparr>],
      flags = Some 0\<rparr>"

text \<open>\<open>k['stats']['install']\<close>, the sort key of an install-count sort.\<close>

definition install :: "extension \<Rightarrow> rat" where
  "install k = the (stat ''install'' k)"

section \<open>Concrete storage trees\<close>

definition ex_version :: "string \<Rightarrow> string option \<Rightarrow> version_record" where
  "ex_version v tp =
     \<lparr>version = v, targetPlatform = tp,
      files = [\<lparr>assetType = ''Microsoft.VisualStudio.Services.VSIXPackage'', source = None,
                asset_other = []\<rparr>],
      assetUri = None, fallbackAssetUri = None,
      other_keys = [(''flags'', JStr ''validated'')]\<rparr>"

definition ex_description :: "version_record list \<Rightarrow> description" where
  "ex_description vs =
     \<lparr>d_identity = Some ''pub.tool'', d_versions = Some vs,
      d_statistics = Some [(''install'', 50)], d_info = ex_info ''id-tool'' None\<rparr>"

text \<open>A version directory named after the version in its \<open>extension.json\<close>.\<close>

definition version_dir :: "string \<Rightarrow> string option \<Rightarrow> dir_entry" where
  "version_dir v tp =
     \<lparr>entry_name = v, entry_is_dir = True,
      extension_json = Content (ex_description [ex_version v tp])\<rparr>"

text \<open>A version directory for one platform, named after version and platform.\<close>

definition platform_version_dir :: "string \<Rightarrow> string \<Rightarrow> dir_entry" where
  "platform_version_dir v p =
     \<lparr>entry_name = v @ ''-'' @ p, entry_is_dir = True,
      extension_json = Content (ex_description [ex_version v (Some p)])\<rparr>"

definition tool_path :: string where
  "tool_path = ''/artifacts/extensions/pub.tool''"

text \<open>
  An extension whose \<open>latest.json\<close> holds version 1.0.0 for \<open>linux-x64\<close> and whose only
  version directory holds version 1.0.0 for \<open>win32-x64\<close>.
\<close>

definition platform_dir :: extension_dir where
  "platform_dir =
     \<lparr>dir_path = tool_path,
      latest_json = Content (ex_description [ex_version ''1.0.0'' (Some ''linux-x64'')]),
      dir_entries = Some [version_dir ''1.0.0'' (Some ''win32-x64'')]\<rparr>"

text \<open>
  An extension whose \<open>latest.json\<close> holds version 1.0.0 for \<open>linux-x64\<close> and whose
  version directories hold, in the order of the listing, 1.0.0 for \<open>win32-x64\<close>, 0.9.0,
  1.0.0 for \<open>linux-x64\<close> again, and 1.0.0 for \<open>darwin-x64\<close>.
\<close>

definition platforms_dir :: extension_dir where
  "platforms_dir =
     \<lparr>dir_path = tool_path,
      latest_json = Content (ex_description [ex_version ''1.0.0'' (Some ''linux-x64'')]),
      dir_entries = Some [platform_version_dir ''1.0.0'' ''win32-x64'', version_dir ''0.9.0'' None,
                          platform_version_dir ''1.0.0'' ''linux-x64'',
                          platform_version_dir ''1.0.0'' ''darwin-x64'']\<rparr>"

definition platforms_fs :: filesystem where
  "platforms_fs =
     \<lparr>extensions_root =
        Some [\<lparr>is_dir = True, st_mtime = Some 50, updated_json = None, ext_dir = platforms_dir\<rparr>],
      cache_file = None\<rparr>"

text \<open>
  An extension with latest version 1.10.0 and version directories 1.2.0, 1.10.0 and
  1.9.0, listed in that order.
\<close>

definition tool_dir :: extension_dir where
  "tool_dir =
     \<lparr>dir_path = tool_path,
      latest_json = Content (ex_description [ex_version ''1.10.0'' None]),
      dir_entries = Some [version_dir ''1.2.0'' None, version_dir ''1.10.0'' None,
                          version_dir ''1.9.0'' None]\<rparr>"

text \<open>
  A tree with that one extension, its directory modified at time 50 and its marker at
  time 60, and a cache file written at time 100 with the given decoded content.
\<close>

text \<open>
  The listing of \<open>tool_dir\<close> with a directory in second place whose \<open>extension.json\<close>
  cannot be opened.
\<close>

definition unreadable_entries :: "dir_entry list" where
  "unreadable_entries =
     [version_dir ''1.2.0'' None,
      \<lparr>entry_name = ''1.5.0'', entry_is_dir = True, extension_json = Unreadable\<rparr>,
      version_dir ''1.9.0'' None]"

definition tool_fs :: "catalog option \<Rightarrow> filesystem" where
  "tool_fs cached =
     \<lparr>extensions_root =
        Some [\<lparr>is_dir = True, st_mtime = Some 50, updated_json = Some 60, ext_dir = tool_dir\<rparr>],
      cache_file = Some (100, cached)\<rparr>"

text \<open>The same tree with no cache file.\<close>

definition fresh_fs :: filesystem where
  "fresh_fs = (tool_fs None)\<lparr>cache_file := None\<rparr>"

text \<open>A tree whose root cannot be listed, next to a cache file that decodes.\<close>

definition broken_fs :: filesystem where
  "broken_fs = \<lparr>extensions_root = None, cache_file = Some (100, Some (Dict ex_snapshot))\<rparr>"

definition ex_gallery :: "snapshot \<Rightarrow> gallery" where
  "ex_gallery s =
     \<lparr>extensions = Dict s, indexing = False,
      indexing_progress = \<lparr>current = 0, total = 0, stage = ''idle''\<rparr>, history = []\<rparr>"

definition old_snapshot :: snapshot where
  "old_snapshot = [(''pub.old'', ex_ext ''pub.old'' ''id-old'' 7 None)]"

text \<open>The processed record of \<open>pub.tool\<close> for a list of versions and platforms.\<close>

definition tool_version :: "string \<Rightarrow> string option \<Rightarrow> version_record" where
  "tool_version v tp = process_version (URLROOT @ tool_path) (ex_version v tp)"

definition tool_ext :: "version_record list \<Rightarrow> extension" where
  "tool_ext vs =
     \<lparr>identity = ''pub.tool'', versions = vs, statistics = Some [(''install'', 50)],
      stats = [(''averagerating'', 0), (''install'', 50), (''weightedRating'', 0)],
      info = ex_info ''id-tool'' None\<rparr>"

text \<open>The sort key of the version sort, once every version string parses.\<close>

definition version_key :: "(string \<Rightarrow> 'k option) \<Rightarrow> version_record \<Rightarrow> 'k" where
  "version_key Version k = the (Version (version k))"

text \<open>
  The first version record of a sibling directory that the loop looks at: an entry that
  is a directory, whose \<open>extension.json\<close> loads and processes and has a version.
\<close>

definition sibling_version :: "string \<Rightarrow> dir_entry \<Rightarrow> version_record option" where
  "sibling_version extensiondir entry =
     (if entry_is_dir entry \<and> entry_name entry \<noteq> ''.'' then
        (case extension_json entry of
           Content vers0 \<Rightarrow>
             (case process_loaded_extension vers0 extensiondir of
                Inl e \<Rightarrow> None
              | Inr vers \<Rightarrow> (case versions vers of [] \<Rightarrow> None | v0 # vs \<Rightarrow> Some v0))
         | _ \<Rightarrow> None)
      else None)"

text \<open>The exception that the loop raises at an entry, if it raises one there.\<close>

definition entry_error :: "string \<Rightarrow> dir_entry \<Rightarrow> error option" where
  "entry_error extensiondir entry =
     (if entry_is_dir entry \<and> entry_name entry \<noteq> ''.'' then
        (case extension_json entry of
           Unreadable \<Rightarrow> Some OSError
         | Content vers0 \<Rightarrow>
             (case process_loaded_extension vers0 extensiondir of
                Inl e \<Rightarrow> Some e
              | Inr vers \<Rightarrow> (case versions vers of [] \<Rightarrow> Some IndexError | v0 # vs \<Rightarrow> None))
         | _ \<Rightarrow> None)
      else None)"

text \<open>The entries that the loop gets through: those before the first at which it raises.\<close>

definition scanned :: "string \<Rightarrow> dir_entry list \<Rightarrow> dir_entry list" where
  "scanned extensiondir entries = takeWhile (\<lambda>e. entry_error extensiondir e = None) entries"

definition first_error :: "string \<Rightarrow> dir_entry list \<Rightarrow> error option" where
  "first_error extensiondir entries =
     (case dropWhile (\<lambda>e. entry_error extensiondir e = None) entries of
        [] \<Rightarrow> None
      | e # rest \<Rightarrow> entry_error extensiondir e)"

text \<open>
  The staleness test in the words of the specification: the cache time is later than
  the time of an entry when the entry is no directory, or its time can be read and is
  earlier and the time of its marker, if there is one, is earlier too.
\<close>

definition newer_than_entry :: "rat \<Rightarrow> root_entry \<Rightarrow> bool" where
  "newer_than_entry m entry =
     (\<not> is_dir entry
      \<or> ((case st_mtime entry of None \<Rightarrow> False | Some t \<Rightarrow> t < m)
         \<and> (case updated_json entry of None \<Rightarrow> True | Some u \<Rightarrow> u < m)))"

definition cache_is_fresh :: "filesystem \<Rightarrow> bool" where
  "cache_is_fresh fs =
     (case cache_file fs of
        None \<Rightarrow> False
      | Some c \<Rightarrow>
          0 < fst c
          \<and> (case extensions_root fs of
               None \<Rightarrow> False
             | Some entries \<Rightarrow> list_all (newer_than_entry (fst c)) entries))"

text \<open>What the cache file decodes to, when it exists and decodes.\<close>

definition cached_value :: "filesystem \<Rightarrow> catalog option" where
  "cached_value fs = (case cache_file fs of None \<Rightarrow> None | Some c \<Rightarrow> snd c)"

definition cache_decodes :: "filesystem \<Rightarrow> bool" where
  "cache_decodes fs = (cached_value fs \<noteq> None)"

text \<open>A tree like \<open>tool_fs\<close> whose cache file holds the JSON value \<open>null\<close>.\<close>

definition null_cache_fs :: filesystem where
  "null_cache_fs = tool_fs (Some (NotDict PyNone))"

section \<open>Properties of the query engine\<close>

lemma criteria_loop_concat:
  "criteria_loop exts crits acc = acc @ concat (map (criterion_matches exts) crits)"
  by (induction crits arbitrary: acc) (auto simp: criterion_matches_def split: option.splits)

lemma py_sort_desc: "sorted_wrt (\<lambda>a b. key a \<ge> key b) (py_sort key True xs)"
proof -
  have "sorted (map key (sort_key key (rev xs)))" by simp
  then have "sorted_wrt (\<lambda>a b. key a \<le> key b) (sort_key key (rev xs))"
    by (simp add: sorted_map)
  then show ?thesis
    by (simp add: py_sort_def sorted_wrt_rev)
qed

lemma py_sort_stable:
  "filter (\<lambda>x. key x = k) (py_sort key r xs) = filter (\<lambda>x. key x = k) xs"
  by (simp add: py_sort_def sort_key_stable rev_filter [symmetric])

lemma matches_subset: "set (matches exts ft v) \<subseteq> snd ` set exts"
  by (cases ft) auto

lemma apply_criteria_subset: "set (apply_criteria exts crits) \<subseteq> snd ` set exts"
  by (auto simp: apply_criteria_def Let_def criteria_loop_concat criterion_matches_def
      split: option.splits dest: subsetD [OF matches_subset])

text \<open>
  C2, as stated, fails: with an \<open>ExtensionName\<close> criterion for \<open>pub.a\<close> and an \<open>ExtensionId\<close>
  criterion for \<open>id-b\<close>, the query returns \<open>pub.a\<close> and \<open>pub.b\<close>, although \<open>pub.a\<close> does not
  satisfy the \<open>ExtensionId\<close> criterion: the two criteria are not intersected.
\<close>

theorem criteria_not_conjunction:
  "ext_a \<in> set (apply_criteria ex_snapshot [crit 7 ''pub.a'', crit 4 ''id-b''])
   \<and> ext_a \<notin> set (criterion_matches ex_snapshot (crit 4 ''id-b''))
   \<and> apply_criteria ex_snapshot [crit 7 ''pub.a'', crit 4 ''id-b''] = [ext_a, ext_b]"
  by code_simp

text \<open>
  C2, amended: the filtered result is the concatenation, in the order of the criteria,
  of the match lists of the single criteria, whatever their kinds (a criterion of an
  unsupported kind or with a missing key contributes nothing); the recommended
  extensions replace it when it is empty and there are at most two criteria.
\<close>

theorem apply_criteria_concat:
  "apply_criteria exts crits =
     (if concat (map (criterion_matches exts) crits) = [] \<and> length crits \<le> 2
      then filter is_recommended (map snd exts)
      else concat (map (criterion_matches exts) crits))"
  by (simp add: apply_criteria_def criteria_loop_concat)

text \<open>
  C6: when the loop over the criteria leaves \<open>result\<close> empty and there are at most two
  criteria, \<open>_apply_criteria\<close> returns exactly the extensions whose \<open>recommended\<close> key is
  present and true, in the snapshot's order.
\<close>

theorem apply_criteria_fallback:
  assumes "criteria_loop exts crits [] = []" and "length crits \<le> 2"
  shows "apply_criteria exts crits = filter is_recommended (map snd exts)"
  using assms by (simp add: apply_criteria_def)

theorem apply_criteria_fallback_witness:
  "criteria_loop ex_snapshot [crit 7 ''doesnotexist''] [] = []
   \<and> length [crit 7 ''doesnotexist''] \<le> 2
   \<and> apply_criteria ex_snapshot [crit 7 ''doesnotexist''] = [ext_b]"
proof -
  have h1: "criteria_loop ex_snapshot [crit 7 ''doesnotexist''] [] = []" by code_simp
  have h2: "length [crit 7 ''doesnotexist''] \<le> 2" by simp
  have r: "filter is_recommended (map snd ex_snapshot) = [ext_b]" by code_simp
  show ?thesis using h1 h2 apply_criteria_fallback [OF h1 h2] r by simp
qed

text \<open>
  C7: a well-formed query with no \<open>sortBy\<close> (or \<open>sortBy\<close> 0, \<open>NoneOrRelevance\<close>) answers
  200 with the filtered extensions ordered by install count, largest first, extensions
  with equal counts in the order the filter gave them. Every extension of the snapshot
  has an \<open>install\<close> statistic, as every processed extension has.
\<close>

theorem on_post_default_sort:
  assumes "filters req = Some (f0 # fs)" and "criteria f0 = Some crits" and "flags req \<noteq> None"
    and "sortBy f0 = None \<or> sortBy f0 = Some 0"
    and "list_all (\<lambda>ne. stat ''install'' (snd ne) \<noteq> None) exts"
  shows "\<exists>r. on_post dt exts req = Inr (HTTP_200 (build_response r))
           \<and> sorted_wrt (\<lambda>a b. install a \<ge> install b) r
           \<and> (\<forall>n. filter (\<lambda>k. install k = n) r
                    = filter (\<lambda>k. install k = n) (apply_criteria exts crits))"
proof -
  let ?res = "apply_criteria exts crits"
  have all: "list_all (\<lambda>x. stat ''install'' x \<noteq> None) ?res"
    using assms(5) apply_criteria_subset [of exts crits]
    by (auto simp: list_all_iff)
  have nt: "\<not> truthy (sortBy f0)"
    using assms(4) by (auto simp: truthy_def)
  have sr: "sort_result dt ?res InstallCount Descending = Inr (py_sort install True ?res)"
    using all by (simp add: sort_result_def sort_by_key_def or_raise_def install_def [abs_def])
  have "on_post dt exts req = Inr (HTTP_200 (build_response (py_sort install True ?res)))"
    using assms(1-3) nt sr by (simp add: on_post_def Let_def)
  then show ?thesis
    using py_sort_desc [of install ?res] py_sort_stable [of install _ True ?res] by blast
qed

text \<open>
  The example of C7: \<open>pub.a\<close> with 10 installs, \<open>pub.b\<close> with 50 and \<open>pub.c\<close> with 30, all
  three found by the search text \<open>pub\<close>, come back as \<open>pub.b\<close>, \<open>pub.c\<close>, \<open>pub.a\<close>.
\<close>

theorem on_post_default_sort_witness:
  "on_post (\<lambda>s. None) ex_snapshot (ex_request [crit 10 ''pub''])
     = Inr (HTTP_200 (build_response [ext_b, ext_c, ext_a]))
   \<and> (\<exists>r. on_post (\<lambda>s. None) ex_snapshot (ex_request [crit 10 ''pub''])
              = Inr (HTTP_200 (build_response r))
          \<and> sorted_wrt (\<lambda>a b. install a \<ge> install b) r)"
proof -
  have h1: "filters (ex_request [crit 10 ''pub''])
             = Some [\<lparr>criteria = Some [crit 10 ''pub''], sortBy = None, sortOrder = None\<rparr>]"
    by (simp add: ex_request_def)
  have h2: "criteria \<lparr>criteria = Some [crit 10 ''pub''], sortBy = None, sortOrder = None\<rparr>
             = Some [crit 10 ''pub'']" by simp
  have h3: "flags (ex_request [crit 10 ''pub'']) \<noteq> None" by (simp add: ex_request_def)
  have h4: "sortBy \<lparr>criteria = Some [crit 10 ''pub''], sortBy = None, sortOrder = None\<rparr> = None
            \<or> sortBy \<lparr>criteria = Some [crit 10 ''pub''], sortBy = None, sortOrder = None\<rparr> = Some 0"
    by simp
  have h5: "list_all (\<lambda>ne. stat ''install'' (snd ne) \<noteq> None) ex_snapshot" by code_simp
  have v: "on_post (\<lambda>s. None) ex_snapshot (ex_request [crit 10 ''pub''])
     = Inr (HTTP_200 (build_response [ext_b, ext_c, ext_a]))" by code_simp
  from on_post_default_sort [OF h1 h2 h3 h4 h5, of "\<lambda>s. None"] v show ?thesis by blast
qed

text \<open>
  C10: there are a snapshot and a query, namely an \<open>ExtensionName\<close> criterion and a
  \<open>SearchText\<close> criterion that both name \<open>pub.a\<close>, for which the answer lists the record
  of \<open>pub.a\<close> twice and \<open>TotalCount\<close> is 2, the length of the list with the duplicate.
\<close>

theorem duplicate_results_counted:
  "on_post (\<lambda>s. None) ex_snapshot (ex_request [crit 7 ''pub.a'', crit 10 ''pub.a''])
     = Inr (HTTP_200 (build_response [ext_a, ext_a]))
   \<and> map result_extensions (results (build_response [ext_a, ext_a])) = [[ext_a, ext_a]]
   \<and> map item_count
       (concat (map metadataItems
          (concat (map resultMetadata (results (build_response [ext_a, ext_a]))))))
     = [length [ext_a, ext_a]]
   \<and> length [ext_a, ext_a] = 2"
proof -
  have "on_post (\<lambda>s. None) ex_snapshot (ex_request [crit 7 ''pub.a'', crit 10 ''pub.a''])
        = Inr (HTTP_200 (build_response [ext_a, ext_a]))" by code_simp
  then show ?thesis by (simp add: build_response_def)
qed

section \<open>Properties of the metadata loader\<close>

text \<open>
  C3, as stated, fails: the version directory of \<open>platform_dir\<close> holds version 1.0.0,
  the very version string of the latest version, and its record is appended all the
  same, because it differs from the latest record in its target platform. The merged
  list has two records of version 1.0.0.
\<close>

theorem equal_version_sibling_kept:
  "process_single_extension release_version platform_dir
     = Some (tool_ext [tool_version ''1.0.0'' (Some ''linux-x64''),
                       tool_version ''1.0.0'' (Some ''win32-x64'')])
   \<and> sibling_version tool_path (version_dir ''1.0.0'' (Some ''win32-x64''))
       = Some (tool_version ''1.0.0'' (Some ''win32-x64''))
   \<and> release_version (version (tool_version ''1.0.0'' (Some ''win32-x64'')))
       = release_version (version (tool_version ''1.0.0'' (Some ''linux-x64'')))"
  by code_simp

text \<open>
  C3, amended: the loop takes the entries in the order of the listing and stops at the
  first entry at which it raises (an \<open>extension.json\<close> that cannot be opened, a
  description without \<open>identity\<close> or \<open>versions\<close>, or with no version), giving that
  exception. Of the entries before that one, a sibling's first version record is left
  out exactly when it is equal as a whole dict, key by key, to the first version record
  of \<open>latest.json\<close>; the first version record of every other sibling that loads and
  processes is appended, in the order of the listing. An entry from the first raising
  one on adds nothing.
\<close>

theorem scan_versions_appends:
  "scan_versions extensiondir latestversion entries acc
     = (acc @ filter (\<lambda>v. \<not> version_eq latestversion v)
                (List.map_filter (sibling_version extensiondir) (scanned extensiondir entries)),
        first_error extensiondir entries)"
proof (induction entries arbitrary: acc)
  case Nil
  then show ?case by (simp add: List.map_filter_simps scanned_def first_error_def)
next
  case (Cons e es)
  show ?case
  proof (cases "entry_error extensiondir e")
    case (Some err)
    then show ?thesis
      by (auto simp: List.map_filter_simps scanned_def first_error_def entry_error_def
          load_json_def split: json_file.splits sum.splits list.splits if_splits)
  next
    case None
    then have sc: "scanned extensiondir (e # es) = e # scanned extensiondir es"
      and fe: "first_error extensiondir (e # es) = first_error extensiondir es"
      by (simp_all add: scanned_def first_error_def)
    from None show ?thesis
      unfolding sc fe
      by (auto simp: Cons.IH List.map_filter_simps sibling_version_def entry_error_def
          load_json_def split: json_file.splits sum.splits list.splits if_splits)
  qed
qed

text \<open>
  With the unreadable directory in second place, 1.2.0 is appended to the latest
  1.10.0, the loop ends in \<open>OSError\<close>, and 1.9.0 behind it is never looked at.
\<close>

theorem scan_versions_appends_witness:
  "scanned tool_path unreadable_entries = [version_dir ''1.2.0'' None]
   \<and> first_error tool_path unreadable_entries = Some OSError
   \<and> scan_versions tool_path (tool_version ''1.10.0'' None) unreadable_entries
         [tool_version ''1.10.0'' None]
       = ([tool_version ''1.10.0'' None, tool_version ''1.2.0'' None], Some OSError)"
proof -
  have s: "scanned tool_path unreadable_entries = [version_dir ''1.2.0'' None]"
    by code_simp
  have f: "first_error tool_path unreadable_entries = Some OSError"
    by code_simp
  have v: "[tool_version ''1.10.0'' None]
             @ filter (\<lambda>v. \<not> version_eq (tool_version ''1.10.0'' None) v)
                 (List.map_filter (sibling_version tool_path) [version_dir ''1.2.0'' None])
           = [tool_version ''1.10.0'' None, tool_version ''1.2.0'' None]"
    by code_simp
  show ?thesis
    using s f v scan_versions_appends [of tool_path "tool_version ''1.10.0'' None"
        unreadable_entries "[tool_version ''1.10.0'' None]"]
    by simp
qed

section \<open>Properties of the catalog builder\<close>

lemma scan_versions_prefix:
  "\<exists>ys. fst (scan_versions dir lv entries acc) = acc @ ys"
proof (induction entries arbitrary: acc)
  case Nil
  then show ?case by simp
next
  case (Cons e es)
  have a: "\<exists>ys. fst (scan_versions dir lv es acc) = acc @ ys" by (rule Cons.IH)
  have b: "\<And>v. \<exists>ys. fst (scan_versions dir lv es (acc @ [v])) = acc @ ys"
  proof -
    fix v
    from Cons.IH [of "acc @ [v]"] obtain ys
      where "fst (scan_versions dir lv es (acc @ [v])) = (acc @ [v]) @ ys" by blast
    then show "\<exists>ys. fst (scan_versions dir lv es (acc @ [v])) = acc @ ys" by simp
  qed
  show ?case
    using a b by (auto split: sum.splits option.splits list.splits)
qed

lemma collect_versions_nonempty:
  assumes "collect_versions d = Some (latest, found)"
  shows "found \<noteq> []"
proof -
  have scan: "\<And>dir lv es v vs. fst (scan_versions dir lv es (v # vs)) \<noteq> []"
  proof -
    fix dir lv es v vs
    from scan_versions_prefix [of dir lv es "v # vs"] obtain ys
      where "fst (scan_versions dir lv es (v # vs)) = (v # vs) @ ys" by blast
    then show "fst (scan_versions dir lv es (v # vs)) \<noteq> []" by simp
  qed
  show ?thesis
    using assms scan
    by (auto simp: collect_versions_def split: sum.splits option.splits list.splits
        prod.splits if_splits) (metis fst_conv)+
qed

lemma process_single_extension_sorted:
  assumes "process_single_extension Version d = Some ext"
  shows "\<exists>latest found. collect_versions d = Some (latest, found) \<and> found \<noteq> []
           \<and> ext = latest\<lparr>versions := versions ext\<rparr>
           \<and> versions ext = py_sort (version_key Version) True found"
proof -
  from assms obtain latest found sv where c: "collect_versions d = Some (latest, found)"
    and s: "sort_by_key (\<lambda>k. Version (version k)) True found = Some sv"
    and e: "ext = latest\<lparr>versions := sv\<rparr>"
    by (auto simp: process_single_extension_def split: option.splits prod.splits)
  from s have "sv = py_sort (version_key Version) True found"
    by (auto simp: sort_by_key_def version_key_def [abs_def] split: if_splits)
  with c e collect_versions_nonempty [OF c] show ?thesis by simp
qed

lemma py_sort_length: "length (py_sort key r xs) = length xs"
  by (simp add: py_sort_def)

lemma fold_merge_new:
  "new_extensions (fold (merge_future t) rs st)
     = fold (\<lambda>r acc. case r of None \<Rightarrow> acc | Some ext \<Rightarrow> AList.update (identity ext) ext acc)
         rs (new_extensions st)"
proof (induction rs arbitrary: st)
  case Nil
  then show ?case by simp
next
  case (Cons r rs)
  have "new_extensions (merge_future t r st)
          = (case r of None \<Rightarrow> new_extensions st
             | Some ext \<Rightarrow> AList.update (identity ext) ext (new_extensions st))"
    by (simp add: merge_future_def Let_def split: option.splits catalog.splits)
  then show ?case using Cons.IH [of "merge_future t r st"] by simp
qed

lemma update_set_subset: "set (AList.update k v al) \<subseteq> insert (k, v) (set al)"
  by (induction al) auto

lemma accumulated_from_results:
  assumes "(nm, ext) \<in> set (fold (\<lambda>r acc. case r of None \<Rightarrow> acc
              | Some e \<Rightarrow> AList.update (identity e) e acc) rs acc0)"
  shows "(nm, ext) \<in> set acc0 \<or> Some ext \<in> set rs"
  using assms
proof (induction rs arbitrary: acc0)
  case Nil
  then show ?case by simp
next
  case (Cons r rs)
  show ?case
  proof (cases r)
    case None
    with Cons show ?thesis by auto
  next
    case (Some e)
    with Cons.prems have "(nm, ext) \<in> set (fold (\<lambda>r acc. case r of None \<Rightarrow> acc
              | Some e \<Rightarrow> AList.update (identity e) e acc) rs (AList.update (identity e) e acc0))"
      by simp
    from Cons.IH [OF this] have "(nm, ext) \<in> set (AList.update (identity e) e acc0) \<or> Some ext \<in> set rs" .
    then show ?thesis
      using Some update_set_subset [of "identity e" e acc0] by auto
  qed
qed

lemma update_state_rebuild:
  assumes "fst (load_cache fs g0) = False" and "extensions_root fs = Some entries"
  shows "fst (update_state Version as_completed fs g0) = Inr ()"
    and "extensions (snd (update_state Version as_completed fs g0))
          = Dict (accumulate (map (process_single_extension Version)
                               (as_completed (map ext_dir (filter eligible entries)))))"
    and "last (history (snd (update_state Version as_completed fs g0)))
          = Dict (accumulate (map (process_single_extension Version)
                               (as_completed (map ext_dir (filter eligible entries)))))"
proof -
  from assms(1) obtain g1 where "load_cache fs g0 = (False, g1)"
    by (cases "load_cache fs g0") auto
  then show "fst (update_state Version as_completed fs g0) = Inr ()"
    and "extensions (snd (update_state Version as_completed fs g0))
          = Dict (accumulate (map (process_single_extension Version)
                               (as_completed (map ext_dir (filter eligible entries)))))"
    and "last (history (snd (update_state Version as_completed fs g0)))
          = Dict (accumulate (map (process_single_extension Version)
                               (as_completed (map ext_dir (filter eligible entries)))))"
    using assms(2)
    by (simp_all add: update_state_def Let_def publish_def fold_merge_new accumulate_def)
qed

text \<open>
  Every record that the loader builds has the three default statistics, so the
  statistic sorts of \<open>_sort\<close> find their key in it.
\<close>

lemma dict_update_keeps_keys:
  "map_of d k \<noteq> None \<Longrightarrow> map_of (dict_update d other) k \<noteq> None"
proof (induction other arbitrary: d)
  case Nil
  then show ?case by (simp add: dict_update_def)
next
  case (Cons kv other)
  have "map_of (AList.update (fst kv) (snd kv) d) k \<noteq> None"
    using Cons.prems by (simp add: update_conv')
  from Cons.IH [OF this] show ?case by (simp add: dict_update_def)
qed

lemma processed_has_install:
  assumes "process_loaded_extension d dir = Inr ext"
  shows "stat ''install'' ext \<noteq> None"
proof -
  have "map_of default_stats ''install'' \<noteq> None" by (simp add: default_stats_def)
  then have "\<And>other. map_of (dict_update default_stats other) ''install'' \<noteq> None"
    by (rule dict_update_keeps_keys)
  moreover have "map_of default_stats ''install'' \<noteq> None" by (simp add: default_stats_def)
  ultimately show ?thesis
    using assms
    by (auto simp: process_loaded_extension_def stat_def split: option.splits if_splits)
qed

lemma collect_versions_processed:
  assumes "collect_versions d = Some (latest, found)"
  shows "\<exists>latest0. process_loaded_extension latest0 (dir_path d) = Inr latest"
  using assms
  by (auto simp: collect_versions_def split: sum.splits option.splits list.splits
      prod.splits if_splits)

lemma rebuilt_has_install:
  assumes "process_single_extension Version d = Some ext"
  shows "stat ''install'' ext \<noteq> None"
proof -
  from assms obtain latest found sv where c: "collect_versions d = Some (latest, found)"
    and e: "ext = latest\<lparr>versions := sv\<rparr>"
    by (auto simp: process_single_extension_def split: option.splits prod.splits)
  from collect_versions_processed [OF c] obtain latest0
    where "process_loaded_extension latest0 (dir_path d) = Inr latest" by blast
  from processed_has_install [OF this] e show ?thesis by (simp add: stat_def)
qed

text \<open>
  C4: after a rebuild (the cache was not loaded and \<open>update_state\<close> returned, the pool
  having run the directories it was given), every record of the published snapshot
  comes from an eligible directory of the root; its versions list is not empty, is in
  descending order of the parsed versions, and holds the versions that the loader
  discovered in that directory, those of equal parsed version in the order of their
  discovery.
\<close>

theorem published_versions_sorted:
  assumes "update_state Version as_completed fs g0 = (Inr (), g)"
    and "fst (load_cache fs g0) = False"
    and "\<forall>ds. set (as_completed ds) \<subseteq> set ds"
    and "extensions g = Dict published"
    and "(nm, ext) \<in> set published"
  shows "versions ext \<noteq> []
         \<and> sorted_wrt (\<lambda>a b. version_key Version a \<ge> version_key Version b) (versions ext)
         \<and> (\<exists>entries entry latest found.
               extensions_root fs = Some entries \<and> entry \<in> set entries \<and> eligible entry
               \<and> collect_versions (ext_dir entry) = Some (latest, found)
               \<and> ext = latest\<lparr>versions := versions ext\<rparr>
               \<and> (\<forall>k. filter (\<lambda>v. version_key Version v = k) (versions ext)
                        = filter (\<lambda>v. version_key Version v = k) found))"
proof -
  from assms(1,2) obtain entries where root: "extensions_root fs = Some entries"
    by (cases "load_cache fs g0"; cases "extensions_root fs")
       (auto simp: update_state_def Let_def)
  let ?dirs = "map ext_dir (filter eligible entries)"
  let ?rs = "map (process_single_extension Version) (as_completed ?dirs)"
  from update_state_rebuild(2) [OF assms(2) root, of Version as_completed] assms(1)
  have "extensions g = Dict (accumulate ?rs)" by simp
  with assms(4) have "published = accumulate ?rs" by simp
  with assms(5) have "(nm, ext) \<in> set [] \<or> Some ext \<in> set ?rs"
    unfolding accumulate_def by (intro accumulated_from_results) simp
  then obtain d where d: "d \<in> set (as_completed ?dirs)"
    and p: "process_single_extension Version d = Some ext" by auto
  from d assms(3) have "d \<in> set ?dirs" by blast
  then obtain entry where en: "entry \<in> set entries" "eligible entry" "d = ext_dir entry"
    by auto
  from process_single_extension_sorted [OF p] obtain latest found
    where c: "collect_versions d = Some (latest, found)" and ne: "found \<noteq> []"
      and l: "ext = latest\<lparr>versions := versions ext\<rparr>"
      and v: "versions ext = py_sort (version_key Version) True found" by blast
  from ne v have "versions ext \<noteq> []"
    using py_sort_length [of "version_key Version" True found] by (metis length_0_conv)
  moreover have "sorted_wrt (\<lambda>a b. version_key Version a \<ge> version_key Version b) (versions ext)"
    using v py_sort_desc [of "version_key Version" found] by simp
  moreover have "\<forall>k. filter (\<lambda>v. version_key Version v = k) (versions ext)
                      = filter (\<lambda>v. version_key Version v = k) found"
    using v py_sort_stable [of "version_key Version" _ True found] by simp
  ultimately show ?thesis using c l root en by blast
qed

text \<open>
  For \<open>platforms_dir\<close> the loader discovers 1.0.0 for \<open>linux-x64\<close> (the latest), 1.0.0
  for \<open>win32-x64\<close>, 0.9.0 and 1.0.0 for \<open>darwin-x64\<close>; the rebuild publishes the three
  records of version 1.0.0 first, in that order, and 0.9.0 last.
\<close>

theorem published_versions_sorted_witness:
  "fst (update_state release_version (\<lambda>ds. ds) platforms_fs (ex_gallery old_snapshot)) = Inr ()
   \<and> fst (load_cache platforms_fs (ex_gallery old_snapshot)) = False
   \<and> (\<forall>ds::extension_dir list. set ((\<lambda>ds. ds) ds) \<subseteq> set ds)
   \<and> extensions (snd (update_state release_version (\<lambda>ds. ds) platforms_fs
                        (ex_gallery old_snapshot)))
       = Dict [(''pub.tool'',
                tool_ext [tool_version ''1.0.0'' (Some ''linux-x64''),
                          tool_version ''1.0.0'' (Some ''win32-x64''),
                          tool_version ''1.0.0'' (Some ''darwin-x64''),
                          tool_version ''0.9.0'' None])]
   \<and> collect_versions platforms_dir
       = Some (tool_ext [tool_version ''1.0.0'' (Some ''linux-x64'')],
               [tool_version ''1.0.0'' (Some ''linux-x64''),
                tool_version ''1.0.0'' (Some ''win32-x64''),
                tool_version ''0.9.0'' None,
                tool_version ''1.0.0'' (Some ''darwin-x64'')])
   \<and> sorted_wrt (\<lambda>a b. version_key release_version a \<ge> version_key release_version b)
       [tool_version ''1.0.0'' (Some ''linux-x64''), tool_version ''1.0.0'' (Some ''win32-x64''),
        tool_version ''1.0.0'' (Some ''darwin-x64''), tool_version ''0.9.0'' None]"
proof -
  let ?u = "update_state release_version (\<lambda>ds. ds) platforms_fs (ex_gallery old_snapshot)"
  let ?vs = "[tool_version ''1.0.0'' (Some ''linux-x64''),
              tool_version ''1.0.0'' (Some ''win32-x64''),
              tool_version ''1.0.0'' (Some ''darwin-x64''), tool_version ''0.9.0'' None]"
  have f: "fst ?u = Inr ()" by code_simp
  then have h1: "?u = (Inr (), snd ?u)" by (metis prod.collapse)
  have h2: "fst (load_cache platforms_fs (ex_gallery old_snapshot)) = False" by code_simp
  have h3: "\<forall>ds::extension_dir list. set ((\<lambda>ds. ds) ds) \<subseteq> set ds" by simp
  have h4: "extensions (snd ?u) = Dict [(''pub.tool'', tool_ext ?vs)]" by code_simp
  have h5: "(''pub.tool'', tool_ext ?vs) \<in> set [(''pub.tool'', tool_ext ?vs)]" by simp
  have c: "collect_versions platforms_dir
       = Some (tool_ext [tool_version ''1.0.0'' (Some ''linux-x64'')],
               [tool_version ''1.0.0'' (Some ''linux-x64''),
                tool_version ''1.0.0'' (Some ''win32-x64''),
                tool_version ''0.9.0'' None,
                tool_version ''1.0.0'' (Some ''darwin-x64'')])" by code_simp
  have v: "versions (tool_ext ?vs) = ?vs" by (simp add: tool_ext_def)
  from published_versions_sorted [OF h1 h2 h3 h4 h5] v f h2 h3 h4 c show ?thesis by simp
qed

text \<open>
  C1, as stated, fails: with \<open>pub.old\<close> published and \<open>pub.tool\<close> on disk, the rebuild
  gives \<open>self.extensions\<close> two values in turn. The first is the previous mapping updated
  in place with the batch, which holds the old record of \<open>pub.old\<close> next to the new
  record of \<open>pub.tool\<close>; only the second is the accumulated map.
\<close>

theorem rebuild_publishes_mixture:
  "history (snd (update_state release_version (\<lambda>ds. ds) fresh_fs (ex_gallery old_snapshot)))
     = [Dict (old_snapshot @ [(''pub.tool'', tool_ext [tool_version ''1.10.0'' None,
                                 tool_version ''1.9.0'' None, tool_version ''1.2.0'' None])]),
        Dict [(''pub.tool'', tool_ext [tool_version ''1.10.0'' None,
                                 tool_version ''1.9.0'' None, tool_version ''1.2.0'' None])]]
   \<and> extensions (ex_gallery old_snapshot) = Dict old_snapshot
   \<and> old_snapshot = [(''pub.old'', ex_ext ''pub.old'' ''id-old'' 7 None)]"
  by code_simp

text \<open>
  C1, amended: a rebuild that finds no loadable cache and can list the root returns,
  and the last value it gives \<open>self.extensions\<close> is the fully accumulated map, assigned
  whole; that map is the published snapshot afterwards. (Before that assignment the
  rebuild merges batches of new records into the mapping published before.)
\<close>

theorem rebuild_ends_with_whole_swap:
  assumes "fst (load_cache fs g0) = False" and "extensions_root fs = Some entries"
  shows "fst (update_state Version as_completed fs g0) = Inr ()
         \<and> extensions (snd (update_state Version as_completed fs g0))
             = Dict (accumulate (map (process_single_extension Version)
                                  (as_completed (map ext_dir (filter eligible entries)))))
         \<and> last (history (snd (update_state Version as_completed fs g0)))
             = Dict (accumulate (map (process_single_extension Version)
                                  (as_completed (map ext_dir (filter eligible entries)))))"
  using update_state_rebuild [OF assms, of Version as_completed] by simp

theorem rebuild_ends_with_whole_swap_witness:
  "fst (load_cache fresh_fs (ex_gallery old_snapshot)) = False
   \<and> extensions_root fresh_fs
       = Some [\<lparr>is_dir = True, st_mtime = Some 50, updated_json = Some 60, ext_dir = tool_dir\<rparr>]
   \<and> fst (update_state release_version (\<lambda>ds. ds) fresh_fs (ex_gallery old_snapshot)) = Inr ()
   \<and> extensions (snd (update_state release_version (\<lambda>ds. ds) fresh_fs (ex_gallery old_snapshot)))
       = Dict [(''pub.tool'', tool_ext [tool_version ''1.10.0'' None, tool_version ''1.9.0'' None,
                                        tool_version ''1.2.0'' None])]"
proof -
  have h1: "fst (load_cache fresh_fs (ex_gallery old_snapshot)) = False" by code_simp
  have h2: "extensions_root fresh_fs
       = Some [\<lparr>is_dir = True, st_mtime = Some 50, updated_json = Some 60, ext_dir = tool_dir\<rparr>]"
    by (simp add: fresh_fs_def tool_fs_def)
  have v: "accumulate (map (process_single_extension release_version)
             (map ext_dir (filter eligible
                [\<lparr>is_dir = True, st_mtime = Some 50, updated_json = Some 60, ext_dir = tool_dir\<rparr>])))
           = [(''pub.tool'', tool_ext [tool_version ''1.10.0'' None, tool_version ''1.9.0'' None,
                                       tool_version ''1.2.0'' None])]"
    by code_simp
  from rebuild_ends_with_whole_swap [OF h1 h2, of release_version "\<lambda>ds. ds"] v h1 h2
  show ?thesis by simp
qed

text \<open>
  C8: when the extensions root cannot be listed, no cache is loaded, \<open>update_state\<close>
  ends in the \<open>OSError\<close> of the listing, and \<open>self.extensions\<close> has been given no value:
  the published snapshot is the one from before the rebuild.
\<close>

theorem root_failure_keeps_snapshot:
  assumes "extensions_root fs = None"
  shows "fst (load_cache fs g) = False
         \<and> fst (update_state Version as_completed fs g) = Inl OSError
         \<and> extensions (snd (update_state Version as_completed fs g)) = extensions g
         \<and> history (snd (update_state Version as_completed fs g)) = history g"
proof -
  have "get_extensions_mtime fs = Inf"
    using assms by (simp add: get_extensions_mtime_def)
  then have "load_cache fs g = (False, g)"
    by (simp add: load_cache_def float_gt_def)
  then show ?thesis
    using assms by (simp add: update_state_def)
qed

theorem root_failure_keeps_snapshot_witness:
  "extensions_root broken_fs = None
   \<and> fst (update_state release_version (\<lambda>ds. ds) broken_fs (ex_gallery old_snapshot))
       = Inl OSError
   \<and> extensions (snd (update_state release_version (\<lambda>ds. ds) broken_fs
                        (ex_gallery old_snapshot)))
       = Dict old_snapshot"
proof -
  have h: "extensions_root broken_fs = None" by (simp add: broken_fs_def)
  from root_failure_keeps_snapshot [OF h, of "ex_gallery old_snapshot" release_version
      "\<lambda>ds. ds"] h
  show ?thesis by (simp add: ex_gallery_def)
qed

section \<open>Properties of the cache store\<close>

lemma mtime_loop_newer:
  "mtime_loop entries m0 = Inr r \<Longrightarrow>
     (r < m \<longleftrightarrow> m0 < m \<and> list_all (newer_than_entry m) entries)"
proof (induction entries arbitrary: m0)
  case Nil
  then show ?case by simp
next
  case (Cons e es)
  show ?case
  proof (cases "is_dir e")
    case False
    with Cons show ?thesis by (simp add: newer_than_entry_def)
  next
    case True
    with Cons.prems obtain t where t: "st_mtime e = Some t"
      by (cases "st_mtime e") auto
    show ?thesis
    proof (cases "updated_json e")
      case None
      with Cons.prems True t have "mtime_loop es (max m0 t) = Inr r" by simp
      from Cons.IH [OF this] True t None show ?thesis
        by (auto simp: newer_than_entry_def)
    next
      case (Some u)
      with Cons.prems True t have "mtime_loop es (max (max m0 t) u) = Inr r" by simp
      from Cons.IH [OF this] True t Some show ?thesis
        by (auto simp: newer_than_entry_def)
    qed
  qed
qed

lemma mtime_loop_fails:
  "mtime_loop entries m0 = Inl e \<Longrightarrow> \<not> list_all (newer_than_entry m) entries"
proof (induction entries arbitrary: m0)
  case Nil
  then show ?case by simp
next
  case (Cons x xs)
  show ?case
  proof (cases "is_dir x")
    case False
    with Cons show ?thesis by simp
  next
    case True
    show ?thesis
    proof (cases "st_mtime x")
      case None
      with True show ?thesis by (simp add: newer_than_entry_def)
    next
      case (Some t)
      show ?thesis
      proof (cases "updated_json x")
        case None
        with Cons.prems True Some have "mtime_loop xs (max m0 t) = Inl e" by simp
        from Cons.IH [OF this] show ?thesis by simp
      next
        case (Some u)
        with Cons.prems True \<open>st_mtime x = Some t\<close>
        have "mtime_loop xs (max (max m0 t) u) = Inl e" by simp
        from Cons.IH [OF this] show ?thesis by simp
      qed
    qed
  qed
qed

lemma float_gt_extensions_mtime:
  "float_gt m (get_extensions_mtime fs)
     \<longleftrightarrow> 0 < m \<and> (case extensions_root fs of None \<Rightarrow> False
                  | Some entries \<Rightarrow> list_all (newer_than_entry m) entries)"
proof (cases "extensions_root fs")
  case None
  then show ?thesis by (simp add: get_extensions_mtime_def float_gt_def)
next
  case (Some entries)
  show ?thesis
  proof (cases "mtime_loop entries 0")
    case (Inl e)
    with Some mtime_loop_fails [OF Inl, of m] show ?thesis
      by (simp add: get_extensions_mtime_def float_gt_def)
  next
    case (Inr r)
    with Some mtime_loop_newer [OF Inr, of m] show ?thesis
      by (simp add: get_extensions_mtime_def float_gt_def)
  qed
qed

text \<open>
  C5, as stated, fails: the cache file of \<open>tool_fs None\<close> exists and its time, 100, is
  later than the newest time of the tree, 60, yet \<open>load_cache\<close> returns \<open>False\<close> and
  leaves the snapshot as it was, because the file does not decode.
\<close>

theorem newer_cache_not_loaded:
  "cache_file (tool_fs None) = Some (100, None)
   \<and> get_extensions_mtime (tool_fs None) = Finite 60
   \<and> float_gt 100 (Finite 60)
   \<and> load_cache (tool_fs None) (ex_gallery old_snapshot) = (False, ex_gallery old_snapshot)"
  by code_simp

text \<open>
  C5, amended: \<open>load_cache\<close> replaces the snapshot with the content of the cache file if
  and only if the file exists, its time is later than 0 and than the time of every
  subdirectory of the root and of every marker file, and the file decodes; it then
  returns \<open>True\<close> when the content has a length, as every mapping has. In every other
  case it returns \<open>False\<close> and leaves the gallery as it is; that is so whenever the tree
  cannot be read (the root cannot be listed, or a subdirectory cannot be statted).
\<close>

theorem load_cache_iff:
  "(\<forall>data. cache_is_fresh fs \<and> cached_value fs = Some data \<longrightarrow>
       load_cache fs g = (has_len data, publish data g))
   \<and> (\<not> (cache_is_fresh fs \<and> cache_decodes fs) \<longrightarrow> load_cache fs g = (False, g))
   \<and> (get_extensions_mtime fs = Inf \<longrightarrow> load_cache fs g = (False, g))"
proof (cases "cache_file fs")
  case None
  then show ?thesis
    by (simp add: load_cache_def Let_def cache_is_fresh_def cache_decodes_def cached_value_def)
next
  case (Some c)
  have fresh: "cache_is_fresh fs \<longleftrightarrow> float_gt (fst c) (get_extensions_mtime fs)"
    using Some by (simp add: cache_is_fresh_def float_gt_extensions_mtime)
  show ?thesis
  proof (cases "snd c")
    case None
    with Some fresh show ?thesis
      by (simp add: load_cache_def Let_def cache_decodes_def cached_value_def
          get_cache_mtime_def float_gt_def)
  next
    case (Some cached_data)
    with \<open>cache_file fs = Some c\<close> fresh show ?thesis
      by (simp add: load_cache_def Let_def cache_decodes_def cached_value_def
          get_cache_mtime_def float_gt_def)
  qed
qed

text \<open>
  A fresh cache that holds a mapping is loaded; one that does not decode is not, and
  with the root unlistable the cache that holds the mapping is not. A fresh cache that
  holds \<open>null\<close> is assigned and \<open>False\<close> is returned.
\<close>

theorem load_cache_iff_witness:
  "cache_is_fresh (tool_fs (Some (Dict ex_snapshot)))
   \<and> cached_value (tool_fs (Some (Dict ex_snapshot))) = Some (Dict ex_snapshot)
   \<and> load_cache (tool_fs (Some (Dict ex_snapshot))) (ex_gallery old_snapshot)
       = (True, publish (Dict ex_snapshot) (ex_gallery old_snapshot))
   \<and> \<not> (cache_is_fresh (tool_fs None) \<and> cache_decodes (tool_fs None))
   \<and> load_cache (tool_fs None) (ex_gallery old_snapshot) = (False, ex_gallery old_snapshot)
   \<and> get_extensions_mtime broken_fs = Inf
   \<and> load_cache broken_fs (ex_gallery old_snapshot) = (False, ex_gallery old_snapshot)
   \<and> cache_is_fresh null_cache_fs
   \<and> cached_value null_cache_fs = Some (NotDict PyNone)
   \<and> load_cache null_cache_fs (ex_gallery old_snapshot)
       = (False, publish (NotDict PyNone) (ex_gallery old_snapshot))"
proof -
  have a: "cache_is_fresh (tool_fs (Some (Dict ex_snapshot)))" by code_simp
  have b: "cached_value (tool_fs (Some (Dict ex_snapshot))) = Some (Dict ex_snapshot)"
    by (simp add: cached_value_def tool_fs_def)
  have c: "\<not> (cache_is_fresh (tool_fs None) \<and> cache_decodes (tool_fs None))"
    by (simp add: cache_decodes_def cached_value_def tool_fs_def)
  have d: "get_extensions_mtime broken_fs = Inf"
    by (simp add: get_extensions_mtime_def broken_fs_def)
  note l1 = load_cache_iff [of "tool_fs (Some (Dict ex_snapshot))" "ex_gallery old_snapshot"]
  note l2 = load_cache_iff [of "tool_fs None" "ex_gallery old_snapshot"]
  note l3 = load_cache_iff [of broken_fs "ex_gallery old_snapshot"]
  from l1 a b
  have e: "load_cache (tool_fs (Some (Dict ex_snapshot))) (ex_gallery old_snapshot)
            = (has_len (Dict ex_snapshot), publish (Dict ex_snapshot) (ex_gallery old_snapshot))"
    by blast
  from l2 c
  have f: "load_cache (tool_fs None) (ex_gallery old_snapshot) = (False, ex_gallery old_snapshot)"
    by blast
  from l3 d
  have g: "load_cache broken_fs (ex_gallery old_snapshot) = (False, ex_gallery old_snapshot)"
    by blast
  have h: "cache_is_fresh null_cache_fs" by code_simp
  have i: "cached_value null_cache_fs = Some (NotDict PyNone)"
    by (simp add: cached_value_def null_cache_fs_def tool_fs_def)
  from load_cache_iff [of null_cache_fs "ex_gallery old_snapshot"] h i
  have j: "load_cache null_cache_fs (ex_gallery old_snapshot)
            = (has_len (NotDict PyNone), publish (NotDict PyNone) (ex_gallery old_snapshot))"
    by blast
  from a b c d e f g h i j show ?thesis by simp
qed

section \<open>Properties of the refresh scheduler\<close>

text \<open>
  C9, as stated, fails: from the start the worker thread begins a rebuild, and a change
  notification for \<open>/artifacts/updated.json\<close> that arrives before it ends makes the
  observer thread begin a second one. Both threads are then inside a rebuild.
\<close>

theorem overlapping_rebuilds_reachable:
  "reachable \<lparr>worker_rebuilding = True, observer_rebuilding = True, indexing_set = True\<rparr>
   \<and> overlapping \<lparr>worker_rebuilding = True, observer_rebuilding = True, indexing_set = True\<rparr>"
proof -
  let ?s0 = "\<lparr>worker_rebuilding = False, observer_rebuilding = False, indexing_set = False\<rparr>"
  let ?s1 = "\<lparr>worker_rebuilding = True, observer_rebuilding = False, indexing_set = True\<rparr>"
  let ?s2 = "\<lparr>worker_rebuilding = True, observer_rebuilding = True, indexing_set = True\<rparr>"
  have p: "str_in ''updated.json'' ''/artifacts/updated.json''" by code_simp
  have "step ?s0 (?s0\<lparr>worker_rebuilding := True, indexing_set := True\<rparr>)"
    by (rule loop_rebuild [where cache_hit = False]) simp_all
  then have s01: "step ?s0 ?s1" by simp
  have "step ?s1 (?s1\<lparr>observer_rebuilding := True, indexing_set := True\<rparr>)"
    by (rule on_modified_rebuild [where cache_hit = False, OF _ p]) simp_all
  then have s12: "step ?s1 ?s2" by simp
  have "reachable ?s2"
    by (rule next_step [OF next_step [OF start s01] s12])
  then show ?thesis by (simp add: overlapping_def)
qed

text \<open>
  C9, amended: no guard keeps a trigger from starting a rebuild while another one runs.
  Whenever the worker thread is inside a rebuild and the observer thread is not, a
  change notification for a path that contains \<open>updated.json\<close> can start a second
  rebuild at once, and the two rebuilds overlap. Only the rebuilds of one thread follow
  one another.
\<close>

theorem notification_starts_overlapping_rebuild:
  assumes "reachable s" and "worker_rebuilding s" and "\<not> observer_rebuilding s"
    and "str_in ''updated.json'' src_path"
  shows "\<exists>t. step s t \<and> reachable t \<and> overlapping t"
proof -
  let ?t = "s\<lparr>observer_rebuilding := True, indexing_set := True\<rparr>"
  have st: "step s ?t"
    by (rule on_modified_rebuild [where cache_hit = False, OF assms(3) assms(4)]) simp
  then have "reachable ?t" by (rule next_step [OF assms(1)])
  moreover have "overlapping ?t" using assms(2) by (simp add: overlapping_def)
  ultimately show ?thesis using st by blast
qed

theorem notification_starts_overlapping_rebuild_witness:
  "reachable \<lparr>worker_rebuilding = True, observer_rebuilding = False, indexing_set = True\<rparr>
   \<and> str_in ''updated.json'' ''/artifacts/updated.json''
   \<and> (\<exists>t. step \<lparr>worker_rebuilding = True, observer_rebuilding = False, indexing_set = True\<rparr> t
          \<and> reachable t \<and> overlapping t)"
proof -
  let ?s0 = "\<lparr>worker_rebuilding = False, observer_rebuilding = False, indexing_set = False\<rparr>"
  let ?s1 = "\<lparr>worker_rebuilding = True, observer_rebuilding = False, indexing_set = True\<rparr>"
  have p: "str_in ''updated.json'' ''/artifacts/updated.json''" by code_simp
  have "step ?s0 (?s0\<lparr>worker_rebuilding := True, indexing_set := True\<rparr>)"
    by (rule loop_rebuild [where cache_hit = False]) simp_all
  then have "step ?s0 ?s1" by simp
  then have r: "reachable ?s1" by (rule next_step [OF start])
  have w: "worker_rebuilding ?s1" by simp
  have o: "\<not> observer_rebuilding ?s1" by simp
  from notification_starts_overlapping_rebuild [OF r w o p] r p show ?thesis by blast
qed

end
